theory Spec2Isabelle
  imports Complex_Main
begin

section \<open>GPS points and the Haversine distance\<close>

text \<open>
  The recording screen (\<^verbatim>\<open>frontend/app/(tabs)/record.tsx\<close>) and the location service
  (\<^verbatim>\<open>frontend/src/services/locationService.ts\<close>) share the interface \<^verbatim>\<open>GPSPoint\<close>.
  A JavaScript \<^verbatim>\<open>number\<close> is modelled as a real number (no rounding, no NaN), a
  \<^verbatim>\<open>number | null\<close> field as an option, and a \<^verbatim>\<open>Date\<close> as its integer count of
  milliseconds since the epoch.
\<close>

record GPSPoint =
  latitude :: real
  longitude :: real
  altitude :: "real option"
  accuracy :: "real option"
  speed :: "real option"
  timestamp :: int

text \<open>
  \<^verbatim>\<open>Math.atan2(y, x)\<close> over the reals: the angle of the point \<open>(x, y)\<close> in
  \<open>(-\<pi>, \<pi>]\<close>, with the value \<open>0\<close> at the origin.
\<close>

definition atan2 :: "real \<Rightarrow> real \<Rightarrow> real" where
  "atan2 y x =
     (if 0 < x then arctan (y / x)
      else if x < 0 then (if 0 \<le> y then arctan (y / x) + pi else arctan (y / x) - pi)
      else if 0 < y then pi / 2
      else if y < 0 then - (pi / 2)
      else 0)"

text \<open>\<^verbatim>\<open>calculateDistance\<close> of record.tsx, line by line.\<close>

definition calculateDistance :: "real \<Rightarrow> real \<Rightarrow> real \<Rightarrow> real \<Rightarrow> real" where
  "calculateDistance lat1 lon1 lat2 lon2 =
     (let R = 6371000;
          phi1 = (lat1 * pi) / 180;
          phi2 = (lat2 * pi) / 180;
          deltaPhi = ((lat2 - lat1) * pi) / 180;
          deltaLambda = ((lon2 - lon1) * pi) / 180;
          a = sin (deltaPhi / 2) * sin (deltaPhi / 2) +
              cos phi1 * cos phi2 * sin (deltaLambda / 2) * sin (deltaLambda / 2);
          c = 2 * atan2 (sqrt a) (sqrt (1 - a))
      in R * c)"

text \<open>
  \<^verbatim>\<open>calculateTotalDistance\<close>: the \<^verbatim>\<open>for\<close> loop over \<open>i = 1, \<dots>, points.length - 1\<close>
  with its accumulator \<^verbatim>\<open>total\<close> (here \<open>totalAcc\<close>).
\<close>

function totalDistanceLoop :: "GPSPoint list \<Rightarrow> nat \<Rightarrow> real \<Rightarrow> real" where
  "totalDistanceLoop points i totalAcc =
     (if i < length points
      then totalDistanceLoop points (i + 1)
             (totalAcc + calculateDistance
                (latitude (points ! (i - 1))) (longitude (points ! (i - 1)))
                (latitude (points ! i)) (longitude (points ! i)))
      else totalAcc)"
  by pat_completeness auto
termination
  by (relation "measure (\<lambda>(points, i, totalAcc). length points - i)") auto

definition calculateTotalDistance :: "GPSPoint list \<Rightarrow> real" where
  "calculateTotalDistance points = totalDistanceLoop points 1 0"

text \<open>
  The wording of the specification, for comparison with the loop: the sum of the
  Haversine distance over the consecutive pairs of a point sequence.
\<close>

fun consecutivePairSum :: "GPSPoint list \<Rightarrow> real" where
  "consecutivePairSum (p # q # ps) =
     calculateDistance (latitude p) (longitude p) (latitude q) (longitude q)
       + consecutivePairSum (q # ps)"
| "consecutivePairSum ps = 0"

section \<open>The location service\<close>

text \<open>
  \<^verbatim>\<open>locationService.ts\<close>. The interface \<^verbatim>\<open>SessionData\<close>; an ISO time string is
  modelled by the millisecond count it denotes (\<^verbatim>\<open>toISOString\<close> keeps milliseconds).
\<close>

record SessionData =
  isActive :: bool
  isPaused :: bool
  activityType :: string
  startTime :: "int option"
  pausedDuration :: int
  lastPauseTime :: "int option"

text \<open>
  \<^verbatim>\<open>AsyncStorage\<close>, restricted to the two keys the service uses. A key is absent
  (\<^verbatim>\<open>getItem\<close> gives \<^verbatim>\<open>null\<close>) or holds the JSON text of a value, modelled by the
  value. Storage operations are taken to succeed.
\<close>

record AsyncStorage =
  SESSION_STORAGE_KEY :: "SessionData option"
  LOCATION_STORAGE_KEY :: "GPSPoint list option"

text \<open>
  Every reader of the points key uses \<^verbatim>\<open>str ? JSON.parse(str) : []\<close>: an absent key
  reads as the empty list.
\<close>

definition parsePoints :: "GPSPoint list option \<Rightarrow> GPSPoint list" where
  "parsePoints pointsStr = (case pointsStr of None \<Rightarrow> [] | Some ps \<Rightarrow> ps)"

text \<open>
  A \<^verbatim>\<open>Location.LocationObject\<close> carries the fields the code copies into a
  \<^verbatim>\<open>GPSPoint\<close>; the copy is written out as in the source.
\<close>

type_synonym LocationObject = GPSPoint

definition newPointOf :: "LocationObject \<Rightarrow> GPSPoint" where
  "newPointOf loc =
     \<lparr>latitude = latitude loc, longitude = longitude loc, altitude = altitude loc,
      accuracy = accuracy loc, speed = speed loc, timestamp = timestamp loc\<rparr>"

text \<open>
  The handler of \<^verbatim>\<open>BACKGROUND_LOCATION_TASK\<close>: \<open>error\<close> says whether the task body
  carries an error, \<open>data\<close> is the delivered batch of locations, if any.
\<close>

definition backgroundTask ::
  "bool \<Rightarrow> LocationObject list option \<Rightarrow> AsyncStorage \<Rightarrow> AsyncStorage" where
  "backgroundTask error data st =
     (if error then st
      else case data of
        None \<Rightarrow> st
      | Some locations \<Rightarrow>
          (let sessionData = SESSION_STORAGE_KEY st in
           if (case sessionData of None \<Rightarrow> False | Some sd \<Rightarrow> isActive sd \<and> \<not> isPaused sd)
           then
             (let newPoints = map newPointOf locations;
                  existingPoints = parsePoints (LOCATION_STORAGE_KEY st);
                  allPoints = existingPoints @ newPoints
              in st\<lparr>LOCATION_STORAGE_KEY := Some allPoints\<rparr>)
           else st))"

text \<open>
  The host platform: whether \<^verbatim>\<open>Platform.OS\<close> is \<^verbatim>\<open>'web'\<close>, and the answers that the code
  waits for (permission requests, the location provider, the activity API). \<open>True\<close>
  is a granted permission or a resolved promise, \<open>False\<close> a refusal or a rejection.
\<close>

record Host =
  platformWeb :: bool
  foregroundStatus :: bool
  backgroundStatus :: bool
  currentPosition :: "LocationObject option"
  startLocationUpdates :: bool
  stopLocationUpdates :: bool
  watchPosition :: bool
  apiPost :: bool

text \<open>
  The \<^verbatim>\<open>LocationService\<close> object with the storage it writes and the registration of
  the background task in the task manager.
\<close>

record LocationService =
  storage :: AsyncStorage
  taskRegistered :: bool
  isTracking :: bool

definition startBackgroundTracking ::
  "Host \<Rightarrow> int \<Rightarrow> string \<Rightarrow> LocationService \<Rightarrow> bool \<times> LocationService" where
  "startBackgroundTracking host now actType sv =
     (if \<not> foregroundStatus host then (False, sv)
      else
        (let sessionData =
               \<lparr>isActive = True, isPaused = False, activityType = actType,
                startTime = Some now, pausedDuration = 0, lastPauseTime = None\<rparr>;
             st1 = (storage sv)\<lparr>SESSION_STORAGE_KEY := Some sessionData\<rparr>;
             st2 = st1\<lparr>LOCATION_STORAGE_KEY := None\<rparr>
         in if startLocationUpdates host
            then (True, sv\<lparr>storage := st2, taskRegistered := True, isTracking := True\<rparr>)
            else (False, sv\<lparr>storage := st2\<rparr>)))"

definition pauseTracking :: "int \<Rightarrow> LocationService \<Rightarrow> LocationService" where
  "pauseTracking now sv =
     (case SESSION_STORAGE_KEY (storage sv) of
        None \<Rightarrow> sv
      | Some sessionData \<Rightarrow>
          sv\<lparr>storage := (storage sv)\<lparr>SESSION_STORAGE_KEY :=
                Some (sessionData\<lparr>isPaused := True, lastPauseTime := Some now\<rparr>)\<rparr>\<rparr>)"

definition resumeTracking :: "int \<Rightarrow> LocationService \<Rightarrow> LocationService" where
  "resumeTracking now sv =
     (case SESSION_STORAGE_KEY (storage sv) of
        None \<Rightarrow> sv
      | Some sessionData \<Rightarrow>
          (let sd1 =
                 (case lastPauseTime sessionData of
                    Some pauseStart \<Rightarrow>
                      sessionData\<lparr>pausedDuration := pausedDuration sessionData
                          + \<lfloor>real_of_int (now - pauseStart) / 1000\<rfloor>\<rparr>
                  | None \<Rightarrow> sessionData)
           in sv\<lparr>storage := (storage sv)\<lparr>SESSION_STORAGE_KEY :=
                Some (sd1\<lparr>isPaused := False, lastPauseTime := None\<rparr>)\<rparr>\<rparr>))"

definition getSessionData :: "LocationService \<Rightarrow> SessionData option" where
  "getSessionData sv = SESSION_STORAGE_KEY (storage sv)"

definition getCollectedPoints :: "LocationService \<Rightarrow> GPSPoint list" where
  "getCollectedPoints sv = parsePoints (LOCATION_STORAGE_KEY (storage sv))"

text \<open>
  \<^verbatim>\<open>stopBackgroundTracking\<close>: when stopping the location updates of a registered task
  is rejected, the \<^verbatim>\<open>catch\<close> returns the empty list and nothing is cleared.
\<close>

definition stopBackgroundTracking ::
  "Host \<Rightarrow> LocationService \<Rightarrow> GPSPoint list \<times> LocationService" where
  "stopBackgroundTracking host sv =
     (let isRunning = taskRegistered sv in
      if isRunning \<and> \<not> stopLocationUpdates host then ([], sv)
      else
        (let sv1 = (if isRunning then sv\<lparr>taskRegistered := False\<rparr> else sv);
             points = parsePoints (LOCATION_STORAGE_KEY (storage sv1));
             st1 = (storage sv1)\<lparr>LOCATION_STORAGE_KEY := None\<rparr>;
             st2 = st1\<lparr>SESSION_STORAGE_KEY := None\<rparr>
         in (points, sv1\<lparr>storage := st2, isTracking := False\<rparr>)))"

section \<open>The recording screen\<close>

text \<open>
  The state of \<^verbatim>\<open>RecordScreen\<close> in \<^verbatim>\<open>record.tsx\<close>: its \<^verbatim>\<open>useState\<close> variables and its
  refs. The subscription ref is modelled by whether it is set, the map region by its
  four numbers, and every \<^verbatim>\<open>Alert.alert\<close> by an entry appended to \<open>alerts\<close>. The
  interval of the timer effect is not part of the state: \<open>timerTick\<close> below is its
  callback. The live-activity service only mirrors the state to the lock screen and
  catches its own errors; it is left out. A handler reads the state variables at
  their current values, and the clock readings within one handler are one instant
  \<open>now\<close>, in milliseconds.
\<close>

datatype RecordingState = Idle | Recording | Paused

datatype AppStateStatus = Active | Background | Inactive

datatype AlertShown =
    PermissionRequise
  | PermissionArrierePlan
  | PasAssezDePoints
  | ActiviteSauvegardee
  | SauvegardeImpossible

type_synonym Region = "real \<times> real \<times> real \<times> real"

record Screen =
  recordingState :: RecordingState
  screenActivityType :: string
  gpsPoints :: "GPSPoint list"
  distance :: real
  duration :: int
  currentSpeed :: real
  hasPermission :: bool
  isSaving :: bool
  currentLocation :: "GPSPoint option"
  mapRegion :: Region
  locationSubscription :: bool
  startTimeRef :: "int option"
  pausedDurationRef :: int
  appStateRef :: AppStateStatus
  alerts :: "AlertShown list"

text \<open>The body of the request \<^verbatim>\<open>api.post('/activities', activityData)\<close>.\<close>

record ActivityData =
  activity_type :: string
  gps_points :: "GPSPoint list"
  distance_posted :: real
  duration_posted :: int
  avg_speed :: real
  start_time :: "int option"
  end_time :: int

text \<open>
  The screen together with the module-level \<^verbatim>\<open>locationService\<close> and the activities
  the API has accepted. The service is \<^verbatim>\<open>null\<close> on the web or when its module cannot be
  loaded, so the test \<^verbatim>\<open>Platform.OS !== 'web' && locationService\<close> is the test that it is
  not \<^verbatim>\<open>null\<close>.
\<close>

record World =
  screen :: Screen
  locationService :: "LocationService option"
  posted :: "ActivityData list"

text \<open>The callback of the one-second interval that the timer effect runs while recording.\<close>

definition timerTick :: "int \<Rightarrow> Screen \<Rightarrow> Screen" where
  "timerTick now scr =
     (if recordingState scr = Recording
      then (case startTimeRef scr of
              Some start \<Rightarrow>
                scr\<lparr>duration :=
                  \<lfloor>real_of_int (now - start) / 1000 - real_of_int (pausedDurationRef scr)\<rfloor>\<rparr>
            | None \<Rightarrow> scr)
      else scr)"

definition syncBackgroundPoints :: "World \<Rightarrow> World" where
  "syncBackgroundPoints w =
     (case locationService w of
        None \<Rightarrow> w
      | Some sv \<Rightarrow>
          (let points = getCollectedPoints sv in
           if length points > length (gpsPoints (screen w))
           then
             (let dist = calculateTotalDistance points;
                  lastPoint = last points
              in w\<lparr>screen := (screen w)\<lparr>gpsPoints := points, distance := dist,
                     currentLocation := Some lastPoint,
                     mapRegion := (latitude lastPoint, longitude lastPoint, 0.005, 0.005)\<rparr>\<rparr>)
           else w))"

text \<open>
  The listener of \<^verbatim>\<open>AppState\<close> changes. In the source the listener is renewed only when
  \<^verbatim>\<open>recordingState\<close> changes, so its \<^verbatim>\<open>syncBackgroundPoints\<close> compares the stored length
  with the list as it was then, which is never longer than the current list; the
  model compares with the current list.
\<close>

definition appStateChange :: "AppStateStatus \<Rightarrow> World \<Rightarrow> World" where
  "appStateChange nextAppState w =
     (let w1 =
            (if (appStateRef (screen w) = Inactive \<or> appStateRef (screen w) = Background)
                \<and> nextAppState = Active
             then (if recordingState (screen w) = Recording \<or> recordingState (screen w) = Paused
                   then syncBackgroundPoints w else w)
             else w)
      in w1\<lparr>screen := (screen w1)\<lparr>appStateRef := nextAppState\<rparr>\<rparr>)"

definition requestPermissions :: "Host \<Rightarrow> Screen \<Rightarrow> Screen" where
  "requestPermissions host scr =
     (if \<not> foregroundStatus host then scr\<lparr>alerts := alerts scr @ [PermissionRequise]\<rparr>
      else
        (let scr1 = (if \<not> platformWeb host \<and> \<not> backgroundStatus host
                     then scr\<lparr>alerts := alerts scr @ [PermissionArrierePlan]\<rparr> else scr);
             scr2 = scr1\<lparr>hasPermission := True\<rparr>
         in case currentPosition host of
              None \<Rightarrow> scr2
            | Some location \<Rightarrow>
                scr2\<lparr>currentLocation := Some (newPointOf location),
                     mapRegion := (latitude location, longitude location, 0.005, 0.005)\<rparr>))"

text \<open>The callback that \<^verbatim>\<open>startForegroundTracking\<close> passes to \<^verbatim>\<open>watchPositionAsync\<close>.\<close>

definition watchCallback :: "LocationObject \<Rightarrow> Screen \<Rightarrow> Screen" where
  "watchCallback location scr =
     (let newPoint = newPointOf location;
          scr1 = scr\<lparr>currentLocation := Some newPoint\<rparr>;
          scr2 = (case speed location of
                    Some v \<Rightarrow> if v \<ge> 0 then scr1\<lparr>currentSpeed := v * 3.6\<rparr> else scr1
                  | None \<Rightarrow> scr1);
          prev = gpsPoints scr2;
          scr3 =
            (if prev \<noteq> [] then
               (let lastPoint = last prev;
                    dist = calculateDistance (latitude lastPoint) (longitude lastPoint)
                             (latitude newPoint) (longitude newPoint)
                in if dist \<ge> 5 \<and> (case accuracy newPoint of None \<Rightarrow> True | Some acc \<Rightarrow> acc < 30)
                   then scr2\<lparr>distance := distance scr2 + dist, gpsPoints := prev @ [newPoint]\<rparr>
                   else scr2)
             else scr2\<lparr>gpsPoints := [newPoint]\<rparr>)
      in scr3\<lparr>mapRegion := (latitude newPoint, longitude newPoint, 0.005, 0.005)\<rparr>)"

definition startForegroundTracking :: "Host \<Rightarrow> Screen \<Rightarrow> Screen" where
  "startForegroundTracking host scr =
     (if watchPosition host then scr\<lparr>locationSubscription := True\<rparr> else scr)"

definition stopForegroundTracking :: "Screen \<Rightarrow> Screen" where
  "stopForegroundTracking scr =
     (if locationSubscription scr then scr\<lparr>locationSubscription := False\<rparr> else scr)"

definition cleanupTracking :: "Screen \<Rightarrow> Screen" where
  "cleanupTracking scr = stopForegroundTracking scr"

definition handleStart :: "Host \<Rightarrow> int \<Rightarrow> World \<Rightarrow> World" where
  "handleStart host now w =
     (if \<not> hasPermission (screen w)
      then w\<lparr>screen := requestPermissions host (screen w)\<rparr>
      else
        (let scr1 = (screen w)\<lparr>recordingState := Recording, startTimeRef := Some now,
                       pausedDurationRef := 0, gpsPoints := [], distance := 0, duration := 0\<rparr>;
             sv1 = (case locationService w of
                      None \<Rightarrow> None
                    | Some sv \<Rightarrow>
                        Some (snd (startBackgroundTracking host now (screenActivityType scr1) sv)));
             scr2 = startForegroundTracking host scr1
         in w\<lparr>screen := scr2, locationService := sv1\<rparr>))"

definition handlePause :: "int \<Rightarrow> World \<Rightarrow> World" where
  "handlePause now w =
     (let scr1 = stopForegroundTracking ((screen w)\<lparr>recordingState := Paused\<rparr>);
          sv1 = (case locationService w of
                   None \<Rightarrow> None
                 | Some sv \<Rightarrow> Some (pauseTracking now sv))
      in w\<lparr>screen := scr1, locationService := sv1\<rparr>)"

definition handleResume :: "Host \<Rightarrow> int \<Rightarrow> World \<Rightarrow> World" where
  "handleResume host now w =
     (let scr1 = (screen w)\<lparr>recordingState := Recording\<rparr>;
          scr2 = (case startTimeRef scr1 of
                    Some start \<Rightarrow>
                      scr1\<lparr>pausedDurationRef :=
                        \<lfloor>real_of_int (now - start) / 1000 - real_of_int (duration scr1)\<rfloor>\<rparr>
                  | None \<Rightarrow> scr1);
          sv1 = (case locationService w of
                   None \<Rightarrow> None
                 | Some sv \<Rightarrow> Some (resumeTracking now sv));
          scr3 = startForegroundTracking host scr2
      in w\<lparr>screen := scr3, locationService := sv1\<rparr>)"

definition resetRecording :: "Host \<Rightarrow> World \<Rightarrow> World" where
  "resetRecording host w =
     (let scr1 = cleanupTracking (screen w);
          sv1 = (case locationService w of
                   None \<Rightarrow> None
                 | Some sv \<Rightarrow> Some (snd (stopBackgroundTracking host sv)));
          scr2 = scr1\<lparr>recordingState := Idle, gpsPoints := [], distance := 0, duration := 0,
                   currentSpeed := 0, startTimeRef := None, pausedDurationRef := 0\<rparr>
      in w\<lparr>screen := scr2, locationService := sv1\<rparr>)"

text \<open>
  \<^verbatim>\<open>saveActivity\<close>. Its local variable \<^verbatim>\<open>finalPoints\<close> is the in-memory list unless the
  list that \<^verbatim>\<open>stopBackgroundTracking\<close> returns is longer.
\<close>

definition finalPoints :: "Host \<Rightarrow> World \<Rightarrow> GPSPoint list" where
  "finalPoints host w =
     (case locationService w of
        None \<Rightarrow> gpsPoints (screen w)
      | Some sv \<Rightarrow>
          (let backgroundPoints = fst (stopBackgroundTracking host sv) in
           if length backgroundPoints > length (gpsPoints (screen w))
           then backgroundPoints else gpsPoints (screen w)))"

definition saveActivity :: "Host \<Rightarrow> int \<Rightarrow> World \<Rightarrow> World" where
  "saveActivity host now w =
     (let scr1 = cleanupTracking (screen w);
          final = finalPoints host w;
          sv1 = (case locationService w of
                   None \<Rightarrow> None
                 | Some sv \<Rightarrow> Some (snd (stopBackgroundTracking host sv)));
          w1 = w\<lparr>screen := scr1, locationService := sv1\<rparr>
      in if length final < 2
         then resetRecording host
                (w1\<lparr>screen := scr1\<lparr>alerts := alerts scr1 @ [PasAssezDePoints]\<rparr>\<rparr>)
         else
           (let avgSpeed = (if duration scr1 > 0
                            then (distance scr1 / 1000) / (real_of_int (duration scr1) / 3600)
                            else 0);
                activityData =
                  \<lparr>activity_type = screenActivityType scr1,
                   gps_points = map newPointOf final,
                   distance_posted = distance scr1,
                   duration_posted = duration scr1,
                   avg_speed = avgSpeed,
                   start_time = startTimeRef scr1,
                   end_time = now\<rparr>
            in if apiPost host
               then w1\<lparr>screen := scr1\<lparr>isSaving := False,
                          alerts := alerts scr1 @ [ActiviteSauvegardee]\<rparr>,
                       posted := posted w @ [activityData]\<rparr>
               else w1\<lparr>screen := scr1\<lparr>isSaving := False,
                          alerts := alerts scr1 @ [SauvegardeImpossible]\<rparr>\<rparr>))"

section \<open>Sample sessions\<close>

text \<open>
  Concrete data for the worked examples below: fixes on the meridian through the
  screen's initial map centre, a host that grants everything, the screen as
  \<^verbatim>\<open>useState\<close> and \<^verbatim>\<open>useRef\<close> initialise it, and a freshly loaded location service.
\<close>

definition fixAt :: "real \<Rightarrow> real option \<Rightarrow> LocationObject" where
  "fixAt lat acc =
     \<lparr>latitude = lat, longitude = 2.3522, altitude = None, accuracy = acc,
      speed = None, timestamp = 0\<rparr>"

definition grantingHost :: Host where
  "grantingHost =
     \<lparr>platformWeb = False, foregroundStatus = True, backgroundStatus = True,
      currentPosition = None, startLocationUpdates = True, stopLocationUpdates = True,
      watchPosition = True, apiPost = True\<rparr>"

definition initialScreen :: Screen where
  "initialScreen =
     \<lparr>recordingState = Idle, screenActivityType = ''running'', gpsPoints = [],
      distance = 0, duration = 0, currentSpeed = 0, hasPermission = False,
      isSaving = False, currentLocation = None,
      mapRegion = (48.8566, 2.3522, 0.01, 0.01), locationSubscription = False,
      startTimeRef = None, pausedDurationRef = 0, appStateRef = Active, alerts = []\<rparr>"

definition initialService :: LocationService where
  "initialService =
     \<lparr>storage = \<lparr>SESSION_STORAGE_KEY = None, LOCATION_STORAGE_KEY = None\<rparr>,
      taskRegistered = False, isTracking = False\<rparr>"

definition initialWorld :: World where
  "initialWorld =
     \<lparr>screen = initialScreen, locationService = Some initialService, posted = []\<rparr>"

text \<open>The screen has asked for the permissions on mount and the user has pressed start.\<close>

definition startedWorld :: World where
  "startedWorld =
     handleStart grantingHost 0
       (initialWorld\<lparr>screen := requestPermissions grantingHost initialScreen\<rparr>)"

text \<open>
  The delivery of one batch of fixes to the background task and of one fix to the
  foreground watcher, lifted to the world.
\<close>

definition deliverBackground :: "LocationObject list \<Rightarrow> World \<Rightarrow> World" where
  "deliverBackground locations w =
     (case locationService w of
        None \<Rightarrow> w
      | Some sv \<Rightarrow>
          w\<lparr>locationService :=
               Some (sv\<lparr>storage := backgroundTask False (Some locations) (storage sv)\<rparr>)\<rparr>)"

definition deliverForeground :: "LocationObject \<Rightarrow> World \<Rightarrow> World" where
  "deliverForeground location w = w\<lparr>screen := watchCallback location (screen w)\<rparr>"

text \<open>
  A short run. Every fix reaches both the foreground watcher and the background task.
  The third fix is 11 m further on but has a poor accuracy, so the watcher drops it
  while the task stores it. The timer then shows one minute.
\<close>

definition trackedWorld :: World where
  "trackedWorld =
     (let w1 = deliverBackground [fixAt 48.8566 (Some 10)]
                 (deliverForeground (fixAt 48.8566 (Some 10)) startedWorld);
          w2 = deliverBackground [fixAt 48.8567 (Some 10)]
                 (deliverForeground (fixAt 48.8567 (Some 10)) w1);
          w3 = deliverBackground [fixAt 48.8568 (Some 50)]
                 (deliverForeground (fixAt 48.8568 (Some 50)) w2)
      in w3\<lparr>screen := timerTick 60000 (screen w3)\<rparr>)"

text \<open>A run that is stopped after its first fix.\<close>

definition onePointWorld :: World where
  "onePointWorld =
     deliverBackground [fixAt 48.8566 (Some 10)]
       (deliverForeground (fixAt 48.8566 (Some 10)) startedWorld)"

text \<open>
  A suspended app: three points are in memory, and the stored sequence holds the same
  three and two more that arrived in the background.
\<close>

definition suspendedWorld :: World where
  "suspendedWorld =
     (let w1 = deliverBackground [fixAt 48.8566 (Some 10)]
                 (deliverForeground (fixAt 48.8566 (Some 10)) startedWorld);
          w2 = deliverBackground [fixAt 48.8567 (Some 10)]
                 (deliverForeground (fixAt 48.8567 (Some 10)) w1);
          w3 = deliverBackground [fixAt 48.8568 (Some 10)]
                 (deliverForeground (fixAt 48.8568 (Some 10)) w2);
          w4 = appStateChange Background w3
      in deliverBackground [fixAt 48.8569 (Some 10), fixAt 48.8570 (Some 10)] w4)"

text \<open>Hosts that refuse the background permission or reject the request to the API.\<close>

definition backgroundRefusingHost :: Host where
  "backgroundRefusingHost = grantingHost\<lparr>backgroundStatus := False\<rparr>"

definition foregroundRefusingHost :: Host where
  "foregroundRefusingHost = grantingHost\<lparr>foregroundStatus := False\<rparr>"

definition apiRejectingHost :: Host where
  "apiRejectingHost = grantingHost\<lparr>apiPost := False\<rparr>"

text \<open>A started session whose timer has fired once, 1010 ms after the start.\<close>

definition tickedWorld :: World where
  "tickedWorld = startedWorld\<lparr>screen := timerTick 1010 (screen startedWorld)\<rparr>"

section \<open>Properties of the distance calculator\<close>

lemma sin_half_neg_square:
  fixes x y :: real
  shows "sin (((x - y) * pi) / 180 / 2) * sin (((x - y) * pi) / 180 / 2) =
         sin (((y - x) * pi) / 180 / 2) * sin (((y - x) * pi) / 180 / 2)"
proof -
  have "((x - y) * pi) / 180 / 2 = - (((y - x) * pi) / 180 / 2)"
    by (simp add: left_diff_distrib diff_divide_distrib)
  then have "sin (((x - y) * pi) / 180 / 2) = - sin (((y - x) * pi) / 180 / 2)"
    by (simp only: sin_minus)
  then show ?thesis
    by (simp only: mult_minus_left mult_minus_right minus_minus)
qed

lemma swap_product:
  fixes c1 c2 s t :: real
  assumes "s * s = t * t"
  shows "c1 * c2 * s * s = c2 * c1 * t * t"
proof -
  have "c1 * c2 * s * s = (c2 * c1) * (s * s)"
    by (simp only: mult.assoc mult.commute [of c1 c2])
  also have "\<dots> = (c2 * c1) * (t * t)"
    by (simp only: assms)
  also have "\<dots> = c2 * c1 * t * t"
    by (simp only: mult.assoc)
  finally show ?thesis .
qed

text \<open>
  In exact arithmetic the Haversine formula is symmetric in its two points and gives 0
  for a point and itself. This is a fact about the formula over the reals only: it
  says nothing about the rounding of the source's doubles, nor about the results that
  are not numbers.
\<close>

lemma calculateDistance_exact_symmetric_zero:
  "calculateDistance lat1 lon1 lat2 lon2 = calculateDistance lat2 lon2 lat1 lon1
   \<and> calculateDistance lat1 lon1 lat1 lon1 = 0"
proof
  show "calculateDistance lat1 lon1 lat2 lon2 = calculateDistance lat2 lon2 lat1 lon1"
    unfolding calculateDistance_def Let_def
    by (simp only: sin_half_neg_square [of lat2 lat1]
          swap_product [OF sin_half_neg_square [of lon2 lon1]])
next
  show "calculateDistance lat1 lon1 lat1 lon1 = 0"
    by (simp add: calculateDistance_def atan2_def)
qed

text \<open>
  For latitudes between -90 and 90 degrees the exact radicand \<^verbatim>\<open>a\<close> lies between 0 and 1,
  so both square roots in \<^verbatim>\<open>calculateDistance\<close> are taken of non-negative numbers. The
  bound 1 is attained at antipodal points; there the doubles of the source can round
  \<^verbatim>\<open>a\<close> above 1, and \<^verbatim>\<open>Math.sqrt(1 - a)\<close> is then not a number. The real-valued model
  does not cover that case.
\<close>

lemma haversine_radicand_range:
  fixes lat1 lon1 lat2 lon2 :: real
  assumes "\<bar>lat1\<bar> \<le> 90" and "\<bar>lat2\<bar> \<le> 90"
  defines "a \<equiv> sin ((((lat2 - lat1) * pi) / 180) / 2) * sin ((((lat2 - lat1) * pi) / 180) / 2) +
              cos ((lat1 * pi) / 180) * cos ((lat2 * pi) / 180)
                * sin ((((lon2 - lon1) * pi) / 180) / 2) * sin ((((lon2 - lon1) * pi) / 180) / 2)"
  shows "0 \<le> a \<and> a \<le> 1"
proof -
  define p1 where "p1 = (lat1 * pi) / 180"
  define p2 where "p2 = (lat2 * pi) / 180"
  define s where "s = sin ((((lon2 - lon1) * pi) / 180) / 2) * sin ((((lon2 - lon1) * pi) / 180) / 2)"
  have b: "\<And>x::real. \<bar>x\<bar> \<le> 90 \<Longrightarrow> - (pi / 2) \<le> (x * pi) / 180 \<and> (x * pi) / 180 \<le> pi / 2"
  proof -
    fix x :: real
    assume x: "\<bar>x\<bar> \<le> 90"
    have "x * pi \<le> 90 * pi" using x by (intro mult_right_mono) auto
    moreover have "(- 90) * pi \<le> x * pi" using x by (intro mult_right_mono) auto
    ultimately show "- (pi / 2) \<le> (x * pi) / 180 \<and> (x * pi) / 180 \<le> pi / 2"
      by simp
  qed
  have r1: "- (pi / 2) \<le> p1 \<and> p1 \<le> pi / 2"
    unfolding p1_def using assms(1) by (rule b)
  have r2: "- (pi / 2) \<le> p2 \<and> p2 \<le> pi / 2"
    unfolding p2_def using assms(2) by (rule b)
  have c1: "0 \<le> cos p1" using r1 by (intro cos_ge_zero) auto
  have c2: "0 \<le> cos p2" using r2 by (intro cos_ge_zero) auto
  have cc: "0 \<le> cos p1 * cos p2" using c1 c2 by simp
  have s0: "0 \<le> s" by (simp add: s_def)
  have "\<bar>sin ((((lon2 - lon1) * pi) / 180) / 2)\<bar> \<le> 1" by simp
  then have s1: "s \<le> 1"
    unfolding s_def by (metis abs_mult_self_eq abs_le_square_iff abs_one power2_eq_square one_power2)
  have dp: "(((lat2 - lat1) * pi) / 180) / 2 = (p2 - p1) / 2"
    by (simp add: p1_def p2_def left_diff_distrib diff_divide_distrib)
  have hs: "sin ((p2 - p1) / 2) * sin ((p2 - p1) / 2) = (1 - cos (p2 - p1)) / 2"
  proof -
    have "2 * ((p2 - p1) / 2) = p2 - p1" by simp
    then have "cos (p2 - p1) = 1 - 2 * (sin ((p2 - p1) / 2))\<^sup>2"
      using cos_double_sin [of "(p2 - p1) / 2"] by (simp only:)
    then show ?thesis by (simp add: power2_eq_square)
  qed
  have a_eq: "a = (1 - cos (p2 - p1)) / 2 + cos p1 * cos p2 * s"
  proof -
    have "a = sin ((p2 - p1) / 2) * sin ((p2 - p1) / 2) +
              cos p1 * cos p2
                * sin ((((lon2 - lon1) * pi) / 180) / 2) * sin ((((lon2 - lon1) * pi) / 180) / 2)"
      by (simp only: a_def dp p1_def p2_def)
    also have "\<dots> = (1 - cos (p2 - p1)) / 2 + cos p1 * cos p2 * s"
      by (simp only: hs s_def mult.assoc)
    finally show ?thesis .
  qed
  have lo: "0 \<le> a"
  proof -
    have "0 \<le> (1 - cos (p2 - p1)) / 2" by simp
    moreover have "0 \<le> cos p1 * cos p2 * s" using cc s0 by simp
    ultimately show ?thesis unfolding a_eq by linarith
  qed
  have hi: "a \<le> 1"
  proof -
    have "cos p1 * cos p2 * s \<le> cos p1 * cos p2"
      using cc s1 by (simp add: mult_left_le)
    then have "a \<le> (1 - cos (p2 - p1)) / 2 + cos p1 * cos p2"
      unfolding a_eq by linarith
    also have "\<dots> = (1 + cos (p2 + p1)) / 2"
      by (simp add: cos_diff cos_add field_simps)
    also have "\<dots> \<le> 1" using cos_le_one [of "p2 + p1"] by simp
    finally show ?thesis .
  qed
  from lo hi show ?thesis by simp
qed

text \<open>The loop of \<^verbatim>\<open>calculateTotalDistance\<close> computes the sum over consecutive pairs.\<close>

lemma totalDistanceLoop_drop:
  "1 \<le> i \<Longrightarrow> i \<le> length points \<Longrightarrow>
   totalDistanceLoop points i totalAcc = totalAcc + consecutivePairSum (drop (i - 1) points)"
proof (induction points i totalAcc rule: totalDistanceLoop.induct)
  case (1 points i totalAcc)
  show ?case
  proof (cases "i < length points")
    case True
    from True "1.prems" have d1: "drop (i - 1) points = points ! (i - 1) # drop i points"
      by (metis Cons_nth_drop_Suc Suc_diff_1 less_imp_diff_less less_le_trans zero_less_one)
    from True have d2: "drop i points = points ! i # drop (Suc i) points"
      by (simp add: Cons_nth_drop_Suc)
    have ih: "totalDistanceLoop points (i + 1)
             (totalAcc + calculateDistance
                (latitude (points ! (i - 1))) (longitude (points ! (i - 1)))
                (latitude (points ! i)) (longitude (points ! i)))
          = (totalAcc + calculateDistance
                (latitude (points ! (i - 1))) (longitude (points ! (i - 1)))
                (latitude (points ! i)) (longitude (points ! i)))
            + consecutivePairSum (drop i points)"
      using "1.IH" [OF True] True by simp
    have "consecutivePairSum (drop (i - 1) points) =
            consecutivePairSum (points ! (i - 1) # points ! i # drop (Suc i) points)"
      by (simp only: d1 d2)
    also have "\<dots> = calculateDistance
                (latitude (points ! (i - 1))) (longitude (points ! (i - 1)))
                (latitude (points ! i)) (longitude (points ! i))
            + consecutivePairSum (points ! i # drop (Suc i) points)"
      by (simp only: consecutivePairSum.simps)
    also have "\<dots> = calculateDistance
                (latitude (points ! (i - 1))) (longitude (points ! (i - 1)))
                (latitude (points ! i)) (longitude (points ! i))
            + consecutivePairSum (drop i points)"
      by (simp only: d2 [symmetric])
    finally have "consecutivePairSum (drop (i - 1) points) =
            calculateDistance
                (latitude (points ! (i - 1))) (longitude (points ! (i - 1)))
                (latitude (points ! i)) (longitude (points ! i))
            + consecutivePairSum (drop i points)" .
    with ih True show ?thesis
      by (subst totalDistanceLoop.simps) simp
  next
    case False
    with "1.prems" have "i = length points" by simp
    with "1.prems" have "drop (i - 1) points = [last points]"
      by (metis One_nat_def Suc_diff_1 append_butlast_last_id append_eq_conv_conj
            length_butlast length_greater_0_conv less_le_trans zero_less_one)
    with False show ?thesis
      by (subst totalDistanceLoop.simps) simp
  qed
qed

lemma calculateTotalDistance_pairs:
  "calculateTotalDistance points = consecutivePairSum points"
proof (cases points)
  case Nil
  then show ?thesis
    by (simp add: calculateTotalDistance_def)
next
  case (Cons p ps)
  then show ?thesis
    using totalDistanceLoop_drop [of 1 points 0]
    by (simp add: calculateTotalDistance_def)
qed

lemma calculateDistance_meridian:
  assumes "\<bar>lat2 - lat1\<bar> < 180"
  shows "calculateDistance lat1 lon lat2 lon = 6371000 * (\<bar>lat2 - lat1\<bar> * pi / 180)"
proof -
  define h where "h = \<bar>lat2 - lat1\<bar> * pi / 360"
  have h0: "0 \<le> h" by (simp add: h_def)
  have h1: "h < pi / 2" using assms by (simp add: h_def field_simps)
  have s0: "0 \<le> sin h" using h0 h1 by (intro sin_ge_zero) (auto simp: field_simps)
  have c0: "0 < cos h" using h0 h1 by (intro cos_gt_zero_pi) auto
  have sq: "sin (((lat2 - lat1) * pi) / 180 / 2) * sin (((lat2 - lat1) * pi) / 180 / 2)
            = sin h * sin h"
  proof (cases "0 \<le> lat2 - lat1")
    case True
    then have "((lat2 - lat1) * pi) / 180 / 2 = h" by (simp add: h_def)
    then show ?thesis by simp
  next
    case False
    then have "((lat2 - lat1) * pi) / 180 / 2 = - h" by (simp add: h_def abs_if field_simps)
    then show ?thesis by simp
  qed
  have a: "sin (((lat2 - lat1) * pi) / 180 / 2) * sin (((lat2 - lat1) * pi) / 180 / 2) +
           cos ((lat1 * pi) / 180) * cos ((lat2 * pi) / 180)
             * sin (((lon - lon) * pi) / 180 / 2) * sin (((lon - lon) * pi) / 180 / 2)
           = (sin h)\<^sup>2"
    using sq by (simp add: power2_eq_square)
  have r1: "sqrt ((sin h)\<^sup>2) = sin h" using s0 by simp
  have "1 - (sin h)\<^sup>2 = (cos h)\<^sup>2"
    using sin_cos_squared_add [of h] by linarith
  then have r2: "sqrt (1 - (sin h)\<^sup>2) = cos h" using c0 by simp
  have "atan2 (sin h) (cos h) = arctan (tan h)"
    using c0 by (simp add: atan2_def tan_def)
  also have "\<dots> = h" using h0 h1 by (intro arctan_tan) auto
  finally have at: "atan2 (sin h) (cos h) = h" .
  show ?thesis
    unfolding calculateDistance_def Let_def a r1 r2 at
    by (simp add: h_def)
qed

section \<open>Evaluation of the sample sessions\<close>

text \<open>The field-by-field copy of a location is the location itself.\<close>

lemma newPointOf_id: "newPointOf loc = loc"
  by (simp add: newPointOf_def)

lemma map_newPointOf: "map newPointOf locations = locations"
  by (induction locations) (simp_all add: newPointOf_id)

lemma fixAt_sel:
  "latitude (fixAt lat acc) = lat" "longitude (fixAt lat acc) = 2.3522"
  "altitude (fixAt lat acc) = None" "accuracy (fixAt lat acc) = acc"
  "speed (fixAt lat acc) = None" "timestamp (fixAt lat acc) = 0"
  by (simp_all add: fixAt_def)

lemma fix_distance:
  "\<bar>lat2 - lat1\<bar> < 180 \<Longrightarrow>
   calculateDistance (latitude (fixAt lat1 a1)) (longitude (fixAt lat1 a1))
     (latitude (fixAt lat2 a2)) (longitude (fixAt lat2 a2))
   = 6371000 * (\<bar>lat2 - lat1\<bar> * pi / 180)"
  by (simp add: fixAt_def calculateDistance_meridian)

text \<open>
  A step of 0.0001 degrees of latitude is about 11 m, above the threshold of 5 m; a step
  of 0.00001 degrees is about 1.1 m, below it.
\<close>

lemma sample_leg_far: "(5::real) \<le> 6371000 * (1 / 10000 * pi / 180)"
  using pi_ge_two by simp

lemma sample_leg_near: "6371000 * (1 / 100000 * pi / 180) < (5::real)"
  using pi_less_4 by simp

lemma startedWorld_eval:
  "startedWorld =
     \<lparr>screen = initialScreen\<lparr>recordingState := Recording, hasPermission := True,
                 locationSubscription := True, startTimeRef := Some 0\<rparr>,
      locationService = Some
        \<lparr>storage = \<lparr>SESSION_STORAGE_KEY = Some
                      \<lparr>isActive = True, isPaused = False, activityType = ''running'',
                       startTime = Some 0, pausedDuration = 0, lastPauseTime = None\<rparr>,
                    LOCATION_STORAGE_KEY = None\<rparr>,
         taskRegistered = True, isTracking = True\<rparr>,
      posted = []\<rparr>"
  by (simp add: startedWorld_def handleStart_def requestPermissions_def
        startBackgroundTracking_def startForegroundTracking_def initialWorld_def
        initialScreen_def initialService_def grantingHost_def Let_def)

lemma trackedWorld_eval:
  "trackedWorld =
     \<lparr>screen = initialScreen\<lparr>recordingState := Recording, hasPermission := True,
                 locationSubscription := True, startTimeRef := Some 0,
                 gpsPoints := [fixAt 48.8566 (Some 10), fixAt 48.8567 (Some 10)],
                 distance := 6371000 * (1 / 10000 * pi / 180),
                 duration := 60,
                 currentLocation := Some (fixAt 48.8568 (Some 50)),
                 mapRegion := (48.8568, 2.3522, 0.005, 0.005)\<rparr>,
      locationService = Some
        \<lparr>storage = \<lparr>SESSION_STORAGE_KEY = Some
                      \<lparr>isActive = True, isPaused = False, activityType = ''running'',
                       startTime = Some 0, pausedDuration = 0, lastPauseTime = None\<rparr>,
                    LOCATION_STORAGE_KEY = Some [fixAt 48.8566 (Some 10),
                       fixAt 48.8567 (Some 10), fixAt 48.8568 (Some 50)]\<rparr>,
         taskRegistered = True, isTracking = True\<rparr>,
      posted = []\<rparr>"
  using sample_leg_far
  by (simp add: trackedWorld_def startedWorld_eval deliverBackground_def deliverForeground_def
        watchCallback_def backgroundTask_def timerTick_def parsePoints_def
        initialScreen_def Let_def newPointOf_id fixAt_sel calculateDistance_meridian)

lemma onePointWorld_eval:
  "onePointWorld =
     \<lparr>screen = initialScreen\<lparr>recordingState := Recording, hasPermission := True,
                 locationSubscription := True, startTimeRef := Some 0,
                 gpsPoints := [fixAt 48.8566 (Some 10)],
                 currentLocation := Some (fixAt 48.8566 (Some 10)),
                 mapRegion := (48.8566, 2.3522, 0.005, 0.005)\<rparr>,
      locationService = Some
        \<lparr>storage = \<lparr>SESSION_STORAGE_KEY = Some
                      \<lparr>isActive = True, isPaused = False, activityType = ''running'',
                       startTime = Some 0, pausedDuration = 0, lastPauseTime = None\<rparr>,
                    LOCATION_STORAGE_KEY = Some [fixAt 48.8566 (Some 10)]\<rparr>,
         taskRegistered = True, isTracking = True\<rparr>,
      posted = []\<rparr>"
  by (simp add: onePointWorld_def startedWorld_eval deliverBackground_def deliverForeground_def
        watchCallback_def backgroundTask_def parsePoints_def
        initialScreen_def Let_def newPointOf_id fixAt_sel)

lemma suspendedWorld_eval:
  "suspendedWorld =
     \<lparr>screen = initialScreen\<lparr>recordingState := Recording, hasPermission := True,
                 locationSubscription := True, startTimeRef := Some 0,
                 gpsPoints := [fixAt 48.8566 (Some 10), fixAt 48.8567 (Some 10),
                    fixAt 48.8568 (Some 10)],
                 distance := 6371000 * (1 / 10000 * pi / 180) + 6371000 * (1 / 10000 * pi / 180),
                 currentLocation := Some (fixAt 48.8568 (Some 10)),
                 mapRegion := (48.8568, 2.3522, 0.005, 0.005),
                 appStateRef := Background\<rparr>,
      locationService = Some
        \<lparr>storage = \<lparr>SESSION_STORAGE_KEY = Some
                      \<lparr>isActive = True, isPaused = False, activityType = ''running'',
                       startTime = Some 0, pausedDuration = 0, lastPauseTime = None\<rparr>,
                    LOCATION_STORAGE_KEY = Some [fixAt 48.8566 (Some 10),
                       fixAt 48.8567 (Some 10), fixAt 48.8568 (Some 10),
                       fixAt 48.8569 (Some 10), fixAt 48.8570 (Some 10)]\<rparr>,
         taskRegistered = True, isTracking = True\<rparr>,
      posted = []\<rparr>"
  using sample_leg_far
  by (simp add: suspendedWorld_def startedWorld_eval deliverBackground_def deliverForeground_def
        watchCallback_def backgroundTask_def appStateChange_def parsePoints_def
        initialScreen_def Let_def newPointOf_id fixAt_sel calculateDistance_meridian)

lemma tickedWorld_eval:
  "tickedWorld = startedWorld\<lparr>screen := (screen startedWorld)\<lparr>duration := 1\<rparr>\<rparr>"
  by (simp add: tickedWorld_def timerTick_def startedWorld_eval initialScreen_def)

lemma finalPoints_onePointWorld:
  "finalPoints grantingHost onePointWorld = [fixAt 48.8566 (Some 10)]"
  by (simp add: finalPoints_def onePointWorld_eval stopBackgroundTracking_def Let_def
        parsePoints_def grantingHost_def initialScreen_def)

lemma finalPoints_trackedWorld:
  "stopLocationUpdates host \<Longrightarrow> finalPoints host trackedWorld =
     [fixAt 48.8566 (Some 10), fixAt 48.8567 (Some 10), fixAt 48.8568 (Some 50)]"
  by (simp add: finalPoints_def trackedWorld_eval stopBackgroundTracking_def Let_def
        parsePoints_def initialScreen_def)

section \<open>The foreground fix filter\<close>

text \<open>
  C6. The foreground watcher accepts a fix unconditionally when no point has been
  accepted yet. Otherwise it accepts the fix if and only if the Haversine distance
  from the last accepted point is at least 5 m and the accuracy of the fix is unknown
  or below 30 m; an accepted fix is appended and its distance added to the
  accumulator. A rejected fix changes neither the point sequence nor the accumulator.
\<close>

theorem watchCallback_filter:
  "(gpsPoints scr = [] \<longrightarrow>
      gpsPoints (watchCallback loc scr) = [newPointOf loc]
      \<and> distance (watchCallback loc scr) = distance scr)
   \<and> (gpsPoints scr \<noteq> []
        \<and> calculateDistance (latitude (last (gpsPoints scr))) (longitude (last (gpsPoints scr)))
             (latitude loc) (longitude loc) \<ge> 5
        \<and> (accuracy loc = None \<or> (\<exists>acc. accuracy loc = Some acc \<and> acc < 30)) \<longrightarrow>
      gpsPoints (watchCallback loc scr) = gpsPoints scr @ [newPointOf loc]
      \<and> distance (watchCallback loc scr) = distance scr
            + calculateDistance (latitude (last (gpsPoints scr)))
                (longitude (last (gpsPoints scr))) (latitude loc) (longitude loc))
   \<and> (gpsPoints scr \<noteq> []
        \<and> \<not> (calculateDistance (latitude (last (gpsPoints scr))) (longitude (last (gpsPoints scr)))
                (latitude loc) (longitude loc) \<ge> 5
              \<and> (accuracy loc = None \<or> (\<exists>acc. accuracy loc = Some acc \<and> acc < 30))) \<longrightarrow>
      gpsPoints (watchCallback loc scr) = gpsPoints scr
      \<and> distance (watchCallback loc scr) = distance scr)"
  by (auto simp: watchCallback_def Let_def newPointOf_def split: option.splits)

text \<open>
  C6 on the samples: a first fix, an accepted fix of unknown accuracy 11 m away, a
  fix of accuracy 30 m that is rejected, and a fix 1.1 m away that is rejected.
\<close>

theorem watchCallback_filter_witness:
  "gpsPoints (watchCallback (fixAt 48.8566 (Some 10)) initialScreen) = [fixAt 48.8566 (Some 10)]
   \<and> gpsPoints (watchCallback (fixAt 48.8567 None)
        (initialScreen\<lparr>gpsPoints := [fixAt 48.8566 (Some 10)]\<rparr>))
       = [fixAt 48.8566 (Some 10), fixAt 48.8567 None]
   \<and> gpsPoints (watchCallback (fixAt 48.8567 (Some 30))
        (initialScreen\<lparr>gpsPoints := [fixAt 48.8566 (Some 10)]\<rparr>))
       = [fixAt 48.8566 (Some 10)]
   \<and> distance (watchCallback (fixAt 48.85661 (Some 10))
        (initialScreen\<lparr>gpsPoints := [fixAt 48.8566 (Some 10)]\<rparr>)) = 0"
proof -
  let ?p = "fixAt 48.8566 (Some 10)"
  let ?scr = "initialScreen\<lparr>gpsPoints := [?p]\<rparr>"
  have far: "\<And>a. calculateDistance (latitude (last (gpsPoints ?scr))) (longitude (last (gpsPoints ?scr)))
               (latitude (fixAt 48.8567 a)) (longitude (fixAt 48.8567 a)) \<ge> 5"
    using sample_leg_far by (simp add: fix_distance)
  have near: "\<not> calculateDistance (latitude (last (gpsPoints ?scr))) (longitude (last (gpsPoints ?scr)))
               (latitude (fixAt 48.85661 (Some 10))) (longitude (fixAt 48.85661 (Some 10))) \<ge> 5"
    using sample_leg_near by (simp add: fix_distance)
  have e: "gpsPoints initialScreen = []" by (simp add: initialScreen_def)
  have ne: "gpsPoints ?scr \<noteq> []" by simp
  have acc30: "\<not> (accuracy (fixAt 48.8567 (Some 30)) = None
                  \<or> (\<exists>acc. accuracy (fixAt 48.8567 (Some 30)) = Some acc \<and> acc < 30))"
    by (simp add: fixAt_def)
  have accN: "accuracy (fixAt 48.8567 None) = None" by (simp add: fixAt_def)
  show ?thesis
    using watchCallback_filter [of initialScreen ?p] e
      watchCallback_filter [of ?scr "fixAt 48.8567 None"] far [of None] accN
      watchCallback_filter [of ?scr "fixAt 48.8567 (Some 30)"] acc30
      watchCallback_filter [of ?scr "fixAt 48.85661 (Some 10)"] near ne
    by (simp add: newPointOf_id initialScreen_def)
qed

section \<open>The background task\<close>

text \<open>
  C10. When the stored session is absent, not active or paused, an invocation of the
  background task leaves the storage unchanged. The storage changes only when the
  stored session is active and not paused; the sequence stored before is always a
  prefix of the sequence stored afterwards, and the session record is never touched.
\<close>

theorem backgroundTask_frame:
  "((case SESSION_STORAGE_KEY st of None \<Rightarrow> True | Some sd \<Rightarrow> \<not> isActive sd \<or> isPaused sd) \<longrightarrow>
      backgroundTask error data st = st)
   \<and> (backgroundTask error data st \<noteq> st \<longrightarrow>
        (\<exists>sd. SESSION_STORAGE_KEY st = Some sd \<and> isActive sd \<and> \<not> isPaused sd))
   \<and> take (length (parsePoints (LOCATION_STORAGE_KEY st)))
        (parsePoints (LOCATION_STORAGE_KEY (backgroundTask error data st)))
      = parsePoints (LOCATION_STORAGE_KEY st)
   \<and> SESSION_STORAGE_KEY (backgroundTask error data st) = SESSION_STORAGE_KEY st"
  by (auto simp: backgroundTask_def Let_def parsePoints_def split: option.splits)

text \<open>
  C10 on the samples: no session and a paused session leave the storage as it is; an
  active session keeps the stored point in front.
\<close>

theorem backgroundTask_frame_witness:
  "backgroundTask False (Some [fixAt 48.8567 (Some 10)])
      \<lparr>SESSION_STORAGE_KEY = None, LOCATION_STORAGE_KEY = Some [fixAt 48.8566 (Some 10)]\<rparr>
     = \<lparr>SESSION_STORAGE_KEY = None, LOCATION_STORAGE_KEY = Some [fixAt 48.8566 (Some 10)]\<rparr>
   \<and> backgroundTask False (Some [fixAt 48.8567 (Some 10)])
      \<lparr>SESSION_STORAGE_KEY = Some
           \<lparr>isActive = True, isPaused = True, activityType = ''running'',
            startTime = Some 0, pausedDuration = 0, lastPauseTime = Some 5000\<rparr>,
        LOCATION_STORAGE_KEY = Some [fixAt 48.8566 (Some 10)]\<rparr>
     = \<lparr>SESSION_STORAGE_KEY = Some
           \<lparr>isActive = True, isPaused = True, activityType = ''running'',
            startTime = Some 0, pausedDuration = 0, lastPauseTime = Some 5000\<rparr>,
        LOCATION_STORAGE_KEY = Some [fixAt 48.8566 (Some 10)]\<rparr>
   \<and> take 1 (parsePoints (LOCATION_STORAGE_KEY
        (backgroundTask False (Some [fixAt 48.8567 (Some 10)])
           \<lparr>SESSION_STORAGE_KEY = Some
               \<lparr>isActive = True, isPaused = False, activityType = ''running'',
                startTime = Some 0, pausedDuration = 0, lastPauseTime = None\<rparr>,
            LOCATION_STORAGE_KEY = Some [fixAt 48.8566 (Some 10)]\<rparr>)))
     = [fixAt 48.8566 (Some 10)]"
  using
    backgroundTask_frame [of "\<lparr>SESSION_STORAGE_KEY = None,
        LOCATION_STORAGE_KEY = Some [fixAt 48.8566 (Some 10)]\<rparr>"
      False "Some [fixAt 48.8567 (Some 10)]"]
    backgroundTask_frame [of "\<lparr>SESSION_STORAGE_KEY = Some
           \<lparr>isActive = True, isPaused = True, activityType = ''running'',
            startTime = Some 0, pausedDuration = 0, lastPauseTime = Some 5000\<rparr>,
        LOCATION_STORAGE_KEY = Some [fixAt 48.8566 (Some 10)]\<rparr>"
      False "Some [fixAt 48.8567 (Some 10)]"]
    backgroundTask_frame [of "\<lparr>SESSION_STORAGE_KEY = Some
               \<lparr>isActive = True, isPaused = False, activityType = ''running'',
                startTime = Some 0, pausedDuration = 0, lastPauseTime = None\<rparr>,
            LOCATION_STORAGE_KEY = Some [fixAt 48.8566 (Some 10)]\<rparr>"
      False "Some [fixAt 48.8567 (Some 10)]"]
  by (simp add: parsePoints_def)

text \<open>
  C2 as worded fails: the task has no accept/reject filter. With an active session it
  appends a fix that lies at the position of the last stored point (distance 0, below
  5 m) and has an accuracy of 50 m (not below 30 m).
\<close>

theorem backgroundTask_unfiltered_counterexample:
  "parsePoints (LOCATION_STORAGE_KEY
      (backgroundTask False (Some [fixAt 48.8566 (Some 50)])
         \<lparr>SESSION_STORAGE_KEY = Some
             \<lparr>isActive = True, isPaused = False, activityType = ''running'',
              startTime = Some 0, pausedDuration = 0, lastPauseTime = None\<rparr>,
          LOCATION_STORAGE_KEY = Some [fixAt 48.8566 (Some 10)]\<rparr>))
     = [fixAt 48.8566 (Some 10), fixAt 48.8566 (Some 50)]
   \<and> \<not> 5 \<le> calculateDistance
            (latitude (fixAt 48.8566 (Some 10))) (longitude (fixAt 48.8566 (Some 10)))
            (latitude (fixAt 48.8566 (Some 50))) (longitude (fixAt 48.8566 (Some 50)))
   \<and> accuracy (fixAt 48.8566 (Some 50)) = Some 50
   \<and> \<not> (50 :: real) < 30"
  by (simp add: backgroundTask_def Let_def parsePoints_def newPointOf_id fixAt_sel
        calculateDistance_meridian)

text \<open>
  C2, amended. While the stored session is active and not paused, the background task
  appends every delivered fix to the stored sequence, in the order of delivery and
  copied field by field, whatever its distance from the previous point and whatever
  its accuracy.
\<close>

theorem backgroundTask_appends_all:
  assumes "SESSION_STORAGE_KEY st = Some sd" and "isActive sd" and "\<not> isPaused sd"
  shows "parsePoints (LOCATION_STORAGE_KEY (backgroundTask False (Some locations) st))
         = parsePoints (LOCATION_STORAGE_KEY st) @ map newPointOf locations
         \<and> map newPointOf locations = locations"
  using assms by (simp add: backgroundTask_def Let_def parsePoints_def map_newPointOf)

text \<open>C2, amended, on a batch of two fixes, the first of which the foreground filter would drop.\<close>

theorem backgroundTask_appends_all_witness:
  "parsePoints (LOCATION_STORAGE_KEY
      (backgroundTask False (Some [fixAt 48.8566 (Some 50), fixAt 48.8567 None])
         \<lparr>SESSION_STORAGE_KEY = Some
             \<lparr>isActive = True, isPaused = False, activityType = ''running'',
              startTime = Some 0, pausedDuration = 0, lastPauseTime = None\<rparr>,
          LOCATION_STORAGE_KEY = Some [fixAt 48.8566 (Some 10)]\<rparr>))
     = [fixAt 48.8566 (Some 10), fixAt 48.8566 (Some 50), fixAt 48.8567 None]"
  using backgroundTask_appends_all [of "\<lparr>SESSION_STORAGE_KEY = Some
             \<lparr>isActive = True, isPaused = False, activityType = ''running'',
              startTime = Some 0, pausedDuration = 0, lastPauseTime = None\<rparr>,
          LOCATION_STORAGE_KEY = Some [fixAt 48.8566 (Some 10)]\<rparr>"
       "\<lparr>isActive = True, isPaused = False, activityType = ''running'',
              startTime = Some 0, pausedDuration = 0, lastPauseTime = None\<rparr>"
       "[fixAt 48.8566 (Some 50), fixAt 48.8567 None]"]
  by (simp add: parsePoints_def)

section \<open>Reconciliation with the stored points\<close>

text \<open>
  C5. When the stored sequence is strictly longer than the in-memory list,
  \<^verbatim>\<open>syncBackgroundPoints\<close> replaces the in-memory list by the whole stored sequence and
  sets the distance to the sum of the Haversine distance over all consecutive pairs of
  that sequence.
\<close>

theorem syncBackgroundPoints_reconciles:
  assumes "locationService w = Some sv"
    and "length (getCollectedPoints sv) > length (gpsPoints (screen w))"
  shows "gpsPoints (screen (syncBackgroundPoints w)) = getCollectedPoints sv
         \<and> distance (screen (syncBackgroundPoints w)) = consecutivePairSum (getCollectedPoints sv)"
  using assms
  by (simp add: syncBackgroundPoints_def Let_def calculateTotalDistance_pairs)

text \<open>
  C5 on the suspended sample: three points in memory, five stored; after the
  reconciliation five points and the distance of the four legs.
\<close>

theorem syncBackgroundPoints_reconciles_witness:
  "length (gpsPoints (screen suspendedWorld)) = 3
   \<and> gpsPoints (screen (syncBackgroundPoints suspendedWorld)) =
       [fixAt 48.8566 (Some 10), fixAt 48.8567 (Some 10), fixAt 48.8568 (Some 10),
        fixAt 48.8569 (Some 10), fixAt 48.8570 (Some 10)]
   \<and> distance (screen (syncBackgroundPoints suspendedWorld)) = 6371000 * (4 / 10000 * pi / 180)"
proof -
  let ?sv = "\<lparr>storage = \<lparr>SESSION_STORAGE_KEY = Some
                      \<lparr>isActive = True, isPaused = False, activityType = ''running'',
                       startTime = Some 0, pausedDuration = 0, lastPauseTime = None\<rparr>,
                    LOCATION_STORAGE_KEY = Some [fixAt 48.8566 (Some 10),
                       fixAt 48.8567 (Some 10), fixAt 48.8568 (Some 10),
                       fixAt 48.8569 (Some 10), fixAt 48.8570 (Some 10)]\<rparr>,
         taskRegistered = True, isTracking = True\<rparr>"
  have h1: "locationService suspendedWorld = Some ?sv"
    by (simp add: suspendedWorld_eval)
  have h2: "length (getCollectedPoints ?sv) > length (gpsPoints (screen suspendedWorld))"
    by (simp add: suspendedWorld_eval getCollectedPoints_def parsePoints_def initialScreen_def)
  have n: "length (gpsPoints (screen suspendedWorld)) = 3"
    by (simp add: suspendedWorld_eval initialScreen_def)
  have s: "consecutivePairSum (getCollectedPoints ?sv) = 6371000 * (4 / 10000 * pi / 180)"
    by (simp add: getCollectedPoints_def parsePoints_def fixAt_sel calculateDistance_meridian)
  show ?thesis
    using syncBackgroundPoints_reconciles [OF h1 h2] n s
    by (simp add: getCollectedPoints_def parsePoints_def)
qed

text \<open>The listener runs this reconciliation when the app returns to the foreground during a session.\<close>

lemma appStateChange_resume:
  assumes "appStateRef (screen w) = Background \<or> appStateRef (screen w) = Inactive"
    and "recordingState (screen w) = Recording \<or> recordingState (screen w) = Paused"
  shows "gpsPoints (screen (appStateChange Active w)) = gpsPoints (screen (syncBackgroundPoints w))
         \<and> distance (screen (appStateChange Active w)) = distance (screen (syncBackgroundPoints w))"
  using assms by (auto simp: appStateChange_def Let_def)

section \<open>Stop and save\<close>

lemma stopBackgroundTracking_cleared:
  "stopLocationUpdates host \<or> \<not> taskRegistered sv \<Longrightarrow>
   storage (snd (stopBackgroundTracking host sv))
     = \<lparr>SESSION_STORAGE_KEY = None, LOCATION_STORAGE_KEY = None\<rparr>"
  by (auto simp: stopBackgroundTracking_def Let_def)

lemma stopBackgroundTracking_twice:
  "stopLocationUpdates host \<or> \<not> taskRegistered sv \<Longrightarrow>
   storage (snd (stopBackgroundTracking host (snd (stopBackgroundTracking host sv))))
     = \<lparr>SESSION_STORAGE_KEY = None, LOCATION_STORAGE_KEY = None\<rparr>"
  by (auto simp: stopBackgroundTracking_def Let_def)

lemma cleanupTracking_frame:
  "recordingState (cleanupTracking scr) = recordingState scr"
  "gpsPoints (cleanupTracking scr) = gpsPoints scr"
  "distance (cleanupTracking scr) = distance scr"
  "duration (cleanupTracking scr) = duration scr"
  "startTimeRef (cleanupTracking scr) = startTimeRef scr"
  "pausedDurationRef (cleanupTracking scr) = pausedDurationRef scr"
  "screenActivityType (cleanupTracking scr) = screenActivityType scr"
  "alerts (cleanupTracking scr) = alerts scr"
  by (simp_all add: cleanupTracking_def stopForegroundTracking_def)

text \<open>
  C3. The saved distance should be the sum over the consecutive pairs of the saved
  point sequence. On the tracked sample \<^verbatim>\<open>saveActivity\<close> adopts the three stored points
  as the saved sequence but posts the accumulator of the two in-memory points: one leg
  of 11 m instead of the two legs that \<^verbatim>\<open>calculateTotalDistance\<close> gives for the saved
  sequence.
\<close>

theorem saveActivity_distance_not_recomputed:
  "posted (saveActivity grantingHost 61000 trackedWorld) =
     [\<lparr>activity_type = ''running'',
       gps_points = [fixAt 48.8566 (Some 10), fixAt 48.8567 (Some 10), fixAt 48.8568 (Some 50)],
       distance_posted = 6371000 * (1 / 10000 * pi / 180),
       duration_posted = 60,
       avg_speed = (6371000 * (1 / 10000 * pi / 180) / 1000) / (60 / 3600),
       start_time = Some 0,
       end_time = 61000\<rparr>]
   \<and> calculateTotalDistance
        [fixAt 48.8566 (Some 10), fixAt 48.8567 (Some 10), fixAt 48.8568 (Some 50)]
       = 6371000 * (2 / 10000 * pi / 180)
   \<and> 6371000 * (1 / 10000 * pi / 180) \<noteq> (6371000 * (2 / 10000 * pi / 180) :: real)"
proof -
  have fp: "finalPoints grantingHost trackedWorld =
     [fixAt 48.8566 (Some 10), fixAt 48.8567 (Some 10), fixAt 48.8568 (Some 50)]"
    by (simp add: finalPoints_trackedWorld grantingHost_def)
  have a: "posted (saveActivity grantingHost 61000 trackedWorld) =
     [\<lparr>activity_type = ''running'',
       gps_points = [fixAt 48.8566 (Some 10), fixAt 48.8567 (Some 10), fixAt 48.8568 (Some 50)],
       distance_posted = 6371000 * (1 / 10000 * pi / 180),
       duration_posted = 60,
       avg_speed = (6371000 * (1 / 10000 * pi / 180) / 1000) / (60 / 3600),
       start_time = Some 0,
       end_time = 61000\<rparr>]"
    by (simp only: saveActivity_def Let_def fp)
       (simp add: cleanupTracking_def stopForegroundTracking_def
          trackedWorld_eval initialScreen_def grantingHost_def newPointOf_id)
  have b: "calculateTotalDistance
        [fixAt 48.8566 (Some 10), fixAt 48.8567 (Some 10), fixAt 48.8568 (Some 50)]
       = 6371000 * (2 / 10000 * pi / 180)"
    by (simp add: calculateTotalDistance_pairs fixAt_sel calculateDistance_meridian)
  have c: "6371000 * (1 / 10000 * pi / 180) \<noteq> (6371000 * (2 / 10000 * pi / 180) :: real)"
    by simp
  from a b c show ?thesis by blast
qed

text \<open>
  C1 as worded fails: with a single accepted point the save does not leave the
  session recording; the screen is back in the idle state with its points cleared.
\<close>

theorem saveActivity_insufficient_counterexample:
  "recordingState (screen onePointWorld) = Recording
   \<and> length (finalPoints grantingHost onePointWorld) < 2
   \<and> recordingState (screen (saveActivity grantingHost 5000 onePointWorld)) = Idle
   \<and> gpsPoints (screen (saveActivity grantingHost 5000 onePointWorld)) = []"
  by (simp only: saveActivity_def Let_def finalPoints_onePointWorld)
     (simp add: resetRecording_def Let_def cleanupTracking_def stopForegroundTracking_def
        onePointWorld_eval initialScreen_def)

text \<open>
  C1, amended. When fewer than 2 points are available at stop and save (the in-memory
  list, or the stored list if that is longer), the save raises the insufficient-data
  alert, posts no activity, and resets the recording: the state is idle, the points,
  distance, duration, start time and paused duration are cleared, and the stored
  session and points are removed.
\<close>

theorem saveActivity_insufficient_resets:
  assumes "length (finalPoints host w) < 2"
  shows "posted (saveActivity host now w) = posted w
         \<and> alerts (screen (saveActivity host now w)) = alerts (screen w) @ [PasAssezDePoints]
         \<and> recordingState (screen (saveActivity host now w)) = Idle
         \<and> gpsPoints (screen (saveActivity host now w)) = []
         \<and> distance (screen (saveActivity host now w)) = 0
         \<and> duration (screen (saveActivity host now w)) = 0
         \<and> startTimeRef (screen (saveActivity host now w)) = None
         \<and> pausedDurationRef (screen (saveActivity host now w)) = 0
         \<and> (\<forall>sv. locationService w = Some sv
                \<and> (stopLocationUpdates host \<or> \<not> taskRegistered sv) \<longrightarrow>
              (\<exists>sv'. locationService (saveActivity host now w) = Some sv'
                 \<and> SESSION_STORAGE_KEY (storage sv') = None
                 \<and> LOCATION_STORAGE_KEY (storage sv') = None))"
  using assms
  by (auto simp: saveActivity_def resetRecording_def Let_def cleanupTracking_frame
        stopBackgroundTracking_twice)

text \<open>C1, amended, on the run stopped after its first fix.\<close>

theorem saveActivity_insufficient_resets_witness:
  "length (finalPoints grantingHost onePointWorld) < 2
   \<and> posted (saveActivity grantingHost 5000 onePointWorld) = []
   \<and> alerts (screen (saveActivity grantingHost 5000 onePointWorld)) = [PasAssezDePoints]
   \<and> recordingState (screen (saveActivity grantingHost 5000 onePointWorld)) = Idle"
proof -
  have h: "length (finalPoints grantingHost onePointWorld) < 2"
    by (simp add: finalPoints_onePointWorld)
  show ?thesis
    using h saveActivity_insufficient_resets [OF h, of 5000]
    by (simp add: onePointWorld_eval initialScreen_def)
qed

text \<open>
  C4 as worded fails: when the API rejects the request, the stored session and the
  stored points are already gone, since \<^verbatim>\<open>stopBackgroundTracking\<close> runs before the
  request is sent.
\<close>

theorem saveActivity_api_failure_counterexample:
  "map_option getCollectedPoints (locationService trackedWorld) =
     Some [fixAt 48.8566 (Some 10), fixAt 48.8567 (Some 10), fixAt 48.8568 (Some 50)]
   \<and> posted (saveActivity apiRejectingHost 61000 trackedWorld) = []
   \<and> alerts (screen (saveActivity apiRejectingHost 61000 trackedWorld)) = [SauvegardeImpossible]
   \<and> locationService (saveActivity apiRejectingHost 61000 trackedWorld) =
       Some \<lparr>storage = \<lparr>SESSION_STORAGE_KEY = None, LOCATION_STORAGE_KEY = None\<rparr>,
             taskRegistered = False, isTracking = False\<rparr>"
proof -
  have fp: "finalPoints apiRejectingHost trackedWorld =
     [fixAt 48.8566 (Some 10), fixAt 48.8567 (Some 10), fixAt 48.8568 (Some 50)]"
    by (simp add: finalPoints_trackedWorld apiRejectingHost_def grantingHost_def)
  show ?thesis
    by (simp only: saveActivity_def Let_def fp)
       (simp add: cleanupTracking_def stopForegroundTracking_def
          stopBackgroundTracking_def getCollectedPoints_def parsePoints_def
          trackedWorld_eval initialScreen_def apiRejectingHost_def grantingHost_def)
qed

text \<open>
  C4, amended. When the API rejects the request of stop and save, nothing is posted,
  the failure alert is raised, and the in-memory session (state, activity type,
  points, distance, duration, start time, paused duration) is as before the save; the
  stored session and points have nevertheless been removed by
  \<^verbatim>\<open>stopBackgroundTracking\<close>.
\<close>

theorem saveActivity_api_failure:
  assumes "\<not> apiPost host" and "2 \<le> length (finalPoints host w)"
  shows "posted (saveActivity host now w) = posted w
         \<and> alerts (screen (saveActivity host now w)) = alerts (screen w) @ [SauvegardeImpossible]
         \<and> recordingState (screen (saveActivity host now w)) = recordingState (screen w)
         \<and> screenActivityType (screen (saveActivity host now w)) = screenActivityType (screen w)
         \<and> gpsPoints (screen (saveActivity host now w)) = gpsPoints (screen w)
         \<and> distance (screen (saveActivity host now w)) = distance (screen w)
         \<and> duration (screen (saveActivity host now w)) = duration (screen w)
         \<and> startTimeRef (screen (saveActivity host now w)) = startTimeRef (screen w)
         \<and> pausedDurationRef (screen (saveActivity host now w)) = pausedDurationRef (screen w)
         \<and> (\<forall>sv. locationService w = Some sv
                \<and> (stopLocationUpdates host \<or> \<not> taskRegistered sv) \<longrightarrow>
              (\<exists>sv'. locationService (saveActivity host now w) = Some sv'
                 \<and> SESSION_STORAGE_KEY (storage sv') = None
                 \<and> LOCATION_STORAGE_KEY (storage sv') = None))"
  using assms
  by (auto simp: saveActivity_def Let_def cleanupTracking_frame stopBackgroundTracking_cleared)

text \<open>C4, amended, on the tracked sample with a rejecting API.\<close>

theorem saveActivity_api_failure_witness:
  "\<not> apiPost apiRejectingHost
   \<and> 2 \<le> length (finalPoints apiRejectingHost trackedWorld)
   \<and> posted (saveActivity apiRejectingHost 61000 trackedWorld) = []
   \<and> recordingState (screen (saveActivity apiRejectingHost 61000 trackedWorld)) = Recording
   \<and> gpsPoints (screen (saveActivity apiRejectingHost 61000 trackedWorld))
       = [fixAt 48.8566 (Some 10), fixAt 48.8567 (Some 10)]"
proof -
  have h1: "\<not> apiPost apiRejectingHost"
    by (simp add: apiRejectingHost_def)
  have h2: "2 \<le> length (finalPoints apiRejectingHost trackedWorld)"
    by (simp add: finalPoints_trackedWorld apiRejectingHost_def grantingHost_def)
  show ?thesis
    using h1 h2 saveActivity_api_failure [OF h1 h2, of 61000]
    by (simp add: trackedWorld_eval initialScreen_def)
qed

section \<open>Start\<close>

text \<open>
  C7 as worded fails: when only the background permission is refused, the screen still
  holds the permission flag after mount, and start moves from idle to recording.
\<close>

theorem handleStart_permission_counterexample:
  "\<not> backgroundStatus backgroundRefusingHost
   \<and> recordingState (screen initialWorld) = Idle
   \<and> recordingState (screen (handleStart backgroundRefusingHost 0
        (initialWorld\<lparr>screen := requestPermissions backgroundRefusingHost initialScreen\<rparr>)))
       = Recording"
  by (simp add: handleStart_def requestPermissions_def startBackgroundTracking_def
        startForegroundTracking_def initialWorld_def initialScreen_def initialService_def
        backgroundRefusingHost_def grantingHost_def Let_def)

text \<open>
  C7, amended. Start aborts when the screen does not hold the permission flag, which
  is set once the foreground permission has been granted: the state, the points, the
  start time and the location service stay as they were, and if the foreground
  permission is refused again the only effect is the permission alert. With the flag
  held and the foreground permission granted, start moves to recording whether or not
  the background permission is granted.
\<close>

theorem handleStart_permission:
  "(\<not> hasPermission (screen w) \<longrightarrow>
      recordingState (screen (handleStart host now w)) = recordingState (screen w)
      \<and> gpsPoints (screen (handleStart host now w)) = gpsPoints (screen w)
      \<and> startTimeRef (screen (handleStart host now w)) = startTimeRef (screen w)
      \<and> locationService (handleStart host now w) = locationService w)
   \<and> (\<not> hasPermission (screen w) \<and> \<not> foregroundStatus host \<longrightarrow>
        handleStart host now w
          = w\<lparr>screen := (screen w)\<lparr>alerts := alerts (screen w) @ [PermissionRequise]\<rparr>\<rparr>)
   \<and> (hasPermission (screen w) \<and> foregroundStatus host \<longrightarrow>
        recordingState (screen (handleStart host now w)) = Recording)"
  by (auto simp: handleStart_def requestPermissions_def startForegroundTracking_def Let_def
        split: option.splits)

text \<open>
  C7, amended, on the samples: a refused foreground permission leaves the initial
  screen idle; with everything granted the session starts.
\<close>

theorem handleStart_permission_witness:
  "\<not> hasPermission (screen initialWorld) \<and> \<not> foregroundStatus foregroundRefusingHost
   \<and> recordingState (screen (handleStart foregroundRefusingHost 0 initialWorld)) = Idle
   \<and> alerts (screen (handleStart foregroundRefusingHost 0 initialWorld)) = [PermissionRequise]
   \<and> hasPermission (screen (initialWorld\<lparr>screen := requestPermissions grantingHost initialScreen\<rparr>))
   \<and> foregroundStatus grantingHost
   \<and> recordingState (screen startedWorld) = Recording"
proof -
  have a: "\<not> hasPermission (screen initialWorld)"
    by (simp add: initialWorld_def initialScreen_def)
  have b: "\<not> foregroundStatus foregroundRefusingHost"
    by (simp add: foregroundRefusingHost_def)
  have c: "hasPermission (screen (initialWorld\<lparr>screen := requestPermissions grantingHost initialScreen\<rparr>))"
    by (simp add: requestPermissions_def grantingHost_def Let_def)
  have d: "foregroundStatus grantingHost"
    by (simp add: grantingHost_def)
  have i: "recordingState (screen initialWorld) = Idle" "alerts (screen initialWorld) = []"
    by (simp_all add: initialWorld_def initialScreen_def)
  show ?thesis
    using a b c d i
      handleStart_permission [of initialWorld foregroundRefusingHost 0]
      handleStart_permission [of "initialWorld\<lparr>screen := requestPermissions grantingHost initialScreen\<rparr>"
        grantingHost 0]
    by (simp add: startedWorld_def)
qed

section \<open>Pause and resume\<close>

text \<open>
  C8 as worded fails for the paused duration that the screen keeps: the timer last
  fired 1010 ms after the start, pause and resume both happen at 2005 ms, and the
  in-memory paused duration goes from 0 to 1 second.
\<close>

theorem pause_resume_counterexample:
  "pausedDurationRef (screen tickedWorld) = 0
   \<and> pausedDurationRef (screen (handleResume grantingHost 2005 (handlePause 2005 tickedWorld))) = 1"
  by (simp add: tickedWorld_eval startedWorld_eval handleResume_def handlePause_def
        startForegroundTracking_def stopForegroundTracking_def initialScreen_def Let_def)

text \<open>
  C8, amended. A resume at the instant of the preceding pause leaves the paused
  duration of the stored session unchanged. The paused duration that the screen keeps
  is recomputed on resume as the whole seconds since the start minus the displayed
  duration; it is unchanged exactly when the displayed duration was up to date at
  that instant, and it is untouched when no start time is set.
\<close>

theorem pause_resume_same_instant:
  "(\<forall>sv sd. locationService w = Some sv \<and> getSessionData sv = Some sd \<longrightarrow>
      (\<exists>sv' sd'. locationService (handleResume host now (handlePause now w)) = Some sv'
         \<and> getSessionData sv' = Some sd' \<and> pausedDuration sd' = pausedDuration sd))
   \<and> (\<forall>start. startTimeRef (screen w) = Some start \<longrightarrow>
        pausedDurationRef (screen (handleResume host now (handlePause now w)))
          = \<lfloor>real_of_int (now - start) / 1000\<rfloor> - duration (screen w)
        \<and> (pausedDurationRef (screen (handleResume host now (handlePause now w)))
              = pausedDurationRef (screen w))
           = (duration (screen w)
              = \<lfloor>real_of_int (now - start) / 1000\<rfloor> - pausedDurationRef (screen w)))
   \<and> (startTimeRef (screen w) = None \<longrightarrow>
        pausedDurationRef (screen (handleResume host now (handlePause now w)))
          = pausedDurationRef (screen w))"
  by (auto simp: handleResume_def handlePause_def pauseTracking_def resumeTracking_def
        getSessionData_def startForegroundTracking_def stopForegroundTracking_def Let_def
        split: option.splits)

text \<open>
  C8, amended, on the started sample before the timer has fired: pause and resume at
  400 ms leave both paused durations at 0.
\<close>

theorem pause_resume_same_instant_witness:
  "startTimeRef (screen startedWorld) = Some 0
   \<and> duration (screen startedWorld) = \<lfloor>real_of_int (400 - 0) / 1000\<rfloor> - pausedDurationRef (screen startedWorld)
   \<and> pausedDurationRef (screen (handleResume grantingHost 400 (handlePause 400 startedWorld)))
       = pausedDurationRef (screen startedWorld)
   \<and> map_option (\<lambda>sv. map_option pausedDuration (getSessionData sv))
         (locationService (handleResume grantingHost 400 (handlePause 400 startedWorld)))
       = Some (Some 0)"
proof -
  let ?sv = "\<lparr>storage = \<lparr>SESSION_STORAGE_KEY = Some
                      \<lparr>isActive = True, isPaused = False, activityType = ''running'',
                       startTime = Some 0, pausedDuration = 0, lastPauseTime = None\<rparr>,
                    LOCATION_STORAGE_KEY = None\<rparr>,
         taskRegistered = True, isTracking = True\<rparr>"
  let ?sd = "\<lparr>isActive = True, isPaused = False, activityType = ''running'',
             startTime = Some 0, pausedDuration = 0, lastPauseTime = None\<rparr>"
  note t = pause_resume_same_instant [of startedWorld grantingHost 400]
  have s: "startTimeRef (screen startedWorld) = Some 0"
    by (simp add: startedWorld_eval)
  have d: "duration (screen startedWorld)
           = \<lfloor>real_of_int (400 - 0) / 1000\<rfloor> - pausedDurationRef (screen startedWorld)"
    by (simp add: startedWorld_eval initialScreen_def)
  have v: "locationService startedWorld = Some ?sv \<and> getSessionData ?sv = Some ?sd"
    by (simp add: startedWorld_eval getSessionData_def)
  from t s d have m: "pausedDurationRef
        (screen (handleResume grantingHost 400 (handlePause 400 startedWorld)))
       = pausedDurationRef (screen startedWorld)"
    by blast
  from t v obtain sv' sd' where
    "locationService (handleResume grantingHost 400 (handlePause 400 startedWorld)) = Some sv'"
    "getSessionData sv' = Some sd'" "pausedDuration sd' = pausedDuration ?sd"
    by blast
  then have p: "map_option (\<lambda>sv. map_option pausedDuration (getSessionData sv))
         (locationService (handleResume grantingHost 400 (handlePause 400 startedWorld)))
       = Some (Some 0)"
    by simp
  from s d m p show ?thesis by blast
qed

end
